theory Spec2Isabelle
  imports Main "HOL-Library.Word"
begin

unbundle bit_operations_syntax

section \<open>Data model\<close>

text \<open>
  Go strings are byte sequences and \<open>len\<close> counts bytes, so a Go string is a
  \<open>string\<close> (a list of 8-bit characters). A \<open>[]byte\<close> is a list of 8-bit words.
\<close>

type_synonym byte = "8 word"

text \<open>
  \<open>trace.SpanContext\<close>: \<open>TraceID\<close> is a \<open>[16]byte\<close>, \<open>SpanID\<close> a \<open>[8]byte\<close>,
  \<open>TraceOptions\<close> a \<open>uint32\<close>. The arrays are lists whose length the operations keep.
\<close>

record SpanContext =
  TraceID :: "byte list"
  SpanID :: "byte list"
  TraceOptions :: "32 word"

text \<open>The zero value of a Go \<open>trace.SpanContext\<close> (a declared, unassigned variable).\<close>

definition zeroSpanContext :: SpanContext where
  "zeroSpanContext =
     \<lparr>TraceID = replicate 16 0, SpanID = replicate 8 0, TraceOptions = 0\<rparr>"

definition traceContextKey :: string where
  "traceContextKey = ''grpc-trace-bin''"

definition jaegerContextKey :: string where
  "jaegerContextKey = ''uber-trace-id''"

section \<open>Standard-library operations used by the decoder\<close>

text \<open>
  \<open>strings.Split(s, sep)\<close> for a one-byte separator: the substrings between the
  separators, in order; a string with \<open>n\<close> separators gives \<open>n + 1\<close> fields, and the
  empty string gives one empty field.
\<close>

fun strings_Split :: "string \<Rightarrow> char \<Rightarrow> string list" where
  "strings_Split [] sep = [[]]"
| "strings_Split (c # cs) sep =
     (if c = sep then [] # strings_Split cs sep
      else (case strings_Split cs sep of
              [] \<Rightarrow> [[c]]
            | p # ps \<Rightarrow> (c # p) # ps))"

text \<open>
  \<open>encoding/hex\<close>: \<open>fromHexChar\<close> maps one hexadecimal digit (either case) to its
  value; \<open>Decode\<close> reads the input two characters at a time and stops at the first
  character that is no digit, returning the bytes decoded so far and the error; an odd
  length is \<open>ErrLength\<close> once every pair before the last character has decoded.
\<close>

datatype hex_error = InvalidByteError char | ErrLength

definition fromHexChar :: "char \<Rightarrow> byte option" where
  "fromHexChar c =
     (let n = (of_char c :: nat) in
      if 48 \<le> n \<and> n \<le> 57 then Some (of_nat (n - 48))
      else if 97 \<le> n \<and> n \<le> 102 then Some (of_nat (n - 97 + 10))
      else if 65 \<le> n \<and> n \<le> 70 then Some (of_nat (n - 65 + 10))
      else None)"

fun hex_Decode :: "string \<Rightarrow> byte list \<times> hex_error option" where
  "hex_Decode [] = ([], None)"
| "hex_Decode [p] =
     (case fromHexChar p of
        None \<Rightarrow> ([], Some (InvalidByteError p))
      | Some a \<Rightarrow> ([], Some ErrLength))"
| "hex_Decode (p # q # rest) =
     (case fromHexChar p of
        None \<Rightarrow> ([], Some (InvalidByteError p))
      | Some a \<Rightarrow>
          (case fromHexChar q of
             None \<Rightarrow> ([], Some (InvalidByteError q))
           | Some b \<Rightarrow>
               (case hex_Decode rest of
                  (bs, err) \<Rightarrow> ((push_bit 4 a OR b) # bs, err))))"

definition hex_DecodeString :: "string \<Rightarrow> byte list \<times> hex_error option" where
  "hex_DecodeString s = hex_Decode s"

text \<open>
  \<open>copy(arr[start:], src)\<close> on an array \<open>arr\<close>: the slice expression panics when
  \<open>start\<close> is negative or beyond the array's length; otherwise \<open>copy\<close> overwrites
  as many elements as both the slice and \<open>src\<close> hold, from index \<open>start\<close>.
\<close>

datatype panic = SliceBoundsOutOfRange int

definition copy_from :: "byte list \<Rightarrow> int \<Rightarrow> byte list \<Rightarrow> panic + byte list" where
  "copy_from arr start src =
     (if start < 0 \<or> int (length arr) < start then Inl (SliceBoundsOutOfRange start)
      else (let s = nat start; n = min (length arr - s) (length src)
            in Inr (take s arr @ take n src @ drop (s + n) arr)))"

section \<open>The textual decoder\<close>

definition hexDecodePadded :: "string \<Rightarrow> byte list \<times> hex_error option" where
  "hexDecodePadded h =
     (if length h mod 2 \<noteq> 0 then hex_DecodeString (CHR ''0'' # h)
      else hex_DecodeString h)"

text \<open>
  \<open>spanContextFromJaeger\<close> returns \<open>Inl\<close> where the Go function panics, and
  \<open>Inr (parent, ok)\<close> where it returns.
\<close>

definition spanContextFromJaeger :: "string \<Rightarrow> panic + (SpanContext \<times> bool)" where
  "spanContextFromJaeger jv =
     (let parent = zeroSpanContext;
          parts = strings_Split jv CHR '':''
      in if length parts = 4 then
           (case hexDecodePadded (parts ! 0) of
              (b, Some err) \<Rightarrow> Inr (parent, False)
            | (b, None) \<Rightarrow>
                (case (if length b \<le> 8
                       then copy_from (TraceID parent) (8 + (8 - int (length b))) b
                       else copy_from (TraceID parent) (16 - int (length b)) b) of
                   Inl p \<Rightarrow> Inl p
                 | Inr tid \<Rightarrow>
                     (let parent = parent\<lparr>TraceID := tid\<rparr> in
                      (case hexDecodePadded (parts ! 1) of
                         (b, Some err) \<Rightarrow> Inr (parent, False)
                       | (b, None) \<Rightarrow>
                           (case copy_from (SpanID parent) (8 - int (length b)) b of
                              Inl p \<Rightarrow> Inl p
                            | Inr sid \<Rightarrow>
                                (let parent = parent\<lparr>SpanID := sid\<rparr> in
                                 if parts ! 3 = ''1''
                                 then Inr (parent\<lparr>TraceOptions := 1\<rparr>, True)
                                 else Inr (parent\<lparr>TraceOptions := 0\<rparr>, True)))))))
         else Inr (parent, True))"

section \<open>Call context and metadata\<close>

text \<open>
  \<open>metadata.MD\<close> is a \<open>map[string][]string\<close>; a nil map answers every lookup with
  "absent". A call context carries the incoming metadata (if any) and the key/value
  pairs appended for the outgoing side, in the order they were appended.
\<close>

type_synonym MD = "string \<rightharpoonup> string list"

record ctx =
  incomingMD :: "MD option"
  outgoingMD :: "(string \<times> string) list"

definition FromIncomingContext :: "ctx \<Rightarrow> MD \<times> bool" where
  "FromIncomingContext c =
     (case incomingMD c of None \<Rightarrow> (Map.empty, False) | Some md \<Rightarrow> (md, True))"

definition AppendToOutgoingContext :: "ctx \<Rightarrow> string \<Rightarrow> string \<Rightarrow> ctx" where
  "AppendToOutgoingContext c k v = c\<lparr>outgoingMD := outgoingMD c @ [(k, v)]\<rparr>"

text \<open>\<open>md[key]\<close> read as a slice: the stored values, or the nil (empty) slice.\<close>

definition md_values :: "MD \<Rightarrow> string \<Rightarrow> string list" where
  "md_values md k = (case md k of None \<Rightarrow> [] | Some vs \<Rightarrow> vs)"

section \<open>Server-side span creation\<close>

datatype SpanKind = SpanKindUnspecified | SpanKindServer | SpanKindClient

datatype LinkType = LinkTypeUnspecified | LinkTypeChild | LinkTypeParent

record Link =
  Link_TraceID :: "byte list"
  Link_SpanID :: "byte list"
  Link_Type :: LinkType

text \<open>
  The span the returned context carries: how the tracing backend was asked to start it
  (name, remote parent if any, kind, sampler) and the links added to it afterwards.
\<close>

datatype 'smp span_start =
    StartSpanWithRemoteParent string SpanContext SpanKind 'smp
  | StartSpan string SpanKind 'smp

record 'smp server_span =
  started :: "'smp span_start"
  links :: "Link list"

record 'smp ServerHandler =
  IsPublicEndpoint :: bool
  Sampler :: 'smp

text \<open>
  \<open>strings.TrimPrefix(name, "/")\<close> followed by
  \<open>strings.Replace(name, "/", ".", -1)\<close>.
\<close>

definition span_name :: "string \<Rightarrow> string" where
  "span_name FullMethodName =
     (let name = (case FullMethodName of
                    [] \<Rightarrow> []
                  | c # cs \<Rightarrow> if c = CHR ''/'' then cs else c # cs)
      in map (\<lambda>c. if c = CHR ''/'' then CHR ''.'' else c) name)"

text \<open>The tail of the server handler: a root span, linked to the parent when there is one.\<close>

definition root_span ::
  "'smp ServerHandler \<Rightarrow> string \<Rightarrow> SpanContext \<Rightarrow> bool \<Rightarrow> 'smp server_span" where
  "root_span s name parent haveParent =
     \<lparr>started = StartSpan name SpanKindServer (Sampler s),
      links = (if haveParent
               then [\<lparr>Link_TraceID = TraceID parent, Link_SpanID = SpanID parent,
                      Link_Type = LinkTypeChild\<rparr>]
               else [])\<rparr>"

definition remote_span ::
  "'smp ServerHandler \<Rightarrow> string \<Rightarrow> SpanContext \<Rightarrow> 'smp server_span" where
  "remote_span s name parent =
     \<lparr>started = StartSpanWithRemoteParent name parent SpanKindServer (Sampler s),
      links = []\<rparr>"

text \<open>
  \<open>ServerHandler.traceTagRPC\<close>. The binary codec \<open>propagation.FromBinary\<close> belongs
  to the tracing library and is a parameter. \<open>Inl\<close> is a panic of the textual decoder.
\<close>

definition ServerHandler_traceTagRPC ::
  "'smp ServerHandler \<Rightarrow> (string \<Rightarrow> SpanContext \<times> bool) \<Rightarrow> ctx \<Rightarrow> string
     \<Rightarrow> panic + 'smp server_span" where
  "ServerHandler_traceTagRPC s FromBinary c FullMethodName =
     (let md = fst (FromIncomingContext c);
          name = span_name FullMethodName;
          traceContext = md_values md traceContextKey;
          (parent, haveParent) =
            (if length traceContext > 0 then FromBinary (traceContext ! 0)
             else (zeroSpanContext, False))
      in if length traceContext > 0 \<and> haveParent \<and> \<not> IsPublicEndpoint s
         then Inr (remote_span s name parent)
         else
           (case md jaegerContextKey of
              None \<Rightarrow> Inr (root_span s name parent haveParent)
            | Some jaegerContext \<Rightarrow>
                if \<not> haveParent \<and> length jaegerContext > 0 then
                  (case spanContextFromJaeger (jaegerContext ! 0) of
                     Inl p \<Rightarrow> Inl p
                   | Inr (parent, haveParent) \<Rightarrow>
                       if haveParent \<and> \<not> IsPublicEndpoint s
                       then Inr (remote_span s name parent)
                       else Inr (root_span s name parent haveParent))
                else Inr (root_span s name parent haveParent)))"

section \<open>Relay interceptors\<close>

text \<open>
  The next handler in the chain is a parameter; the interceptor's result is the
  handler's result on the context (or the wrapped stream) the interceptor built.
\<close>

definition JaegerTracePropagateUnaryInterceptor ::
  "ctx \<Rightarrow> 'req \<Rightarrow> 'info \<Rightarrow> (ctx \<Rightarrow> 'req \<Rightarrow> 'res) \<Rightarrow> 'res" where
  "JaegerTracePropagateUnaryInterceptor c req info handler =
     (let c =
        (case FromIncomingContext c of
           (md, ok) \<Rightarrow>
             if ok then
               (case md jaegerContextKey of
                  None \<Rightarrow> c
                | Some trace \<Rightarrow>
                    if length trace > 0
                    then AppendToOutgoingContext c jaegerContextKey (trace ! 0)
                    else c)
             else c)
      in handler c req)"

text \<open>
  A server stream answers \<open>Context()\<close>; \<open>grpc_middleware.WrapServerStream\<close> wraps it
  with a context of its own, initially the stream's, which the wrapper answers from
  then on.
\<close>

record 'a ServerStream =
  stream_Context :: ctx
  stream_transport :: 'a

record 'a WrappedServerStream =
  wrapped_ServerStream :: "'a ServerStream"
  WrappedContext :: ctx

definition WrapServerStream :: "'a ServerStream \<Rightarrow> 'a WrappedServerStream" where
  "WrapServerStream stream =
     \<lparr>wrapped_ServerStream = stream, WrappedContext = stream_Context stream\<rparr>"

definition JaegerTracePropagateStreamInterceptor ::
  "'srv \<Rightarrow> 'a ServerStream \<Rightarrow> 'info \<Rightarrow> ('srv \<Rightarrow> 'a WrappedServerStream \<Rightarrow> 'res)
     \<Rightarrow> 'res" where
  "JaegerTracePropagateStreamInterceptor srv stream info handler =
     (let newCtx = stream_Context stream;
          newCtx =
            (case FromIncomingContext (stream_Context stream) of
               (md, ok) \<Rightarrow>
                 if ok then
                   (case md jaegerContextKey of
                      None \<Rightarrow> newCtx
                    | Some trace \<Rightarrow>
                        if length trace > 0
                        then AppendToOutgoingContext newCtx jaegerContextKey (trace ! 0)
                        else newCtx)
                 else newCtx);
          wrapped = WrapServerStream stream;
          wrapped = wrapped\<lparr>WrappedContext := newCtx\<rparr>
      in handler srv wrapped)"

section \<open>Event recorder\<close>

text \<open>
  \<open>stats.RPCStats\<close> is an interface; the switch names four of its implementations
  and does nothing for the others. Lengths are Go \<open>int\<close>s widened to \<open>int64\<close>, which
  keeps their value.
\<close>

datatype 'err RPCStats =
    Begin bool bool
  | InPayload int int
  | OutPayload int int
  | End "'err option"
  | InHeader
  | InTrailer
  | OutHeader
  | OutTrailer

record Status =
  Code :: "32 word"
  Message :: string

text \<open>\<open>codes.Internal\<close> of the RPC library.\<close>

definition codes_Internal :: "32 word" where
  "codes_Internal = 13"

text \<open>The calls made on the active span, in order.\<close>

datatype span_op =
    AddAttributes "(string \<times> bool) list"
  | AddMessageReceiveEvent int int int
  | AddMessageSendEvent int int int
  | SetStatus Status
  | EndSpan

text \<open>
  \<open>traceHandleRPC\<close>. \<open>status.FromError\<close> (the RPC library's extraction of a status
  from an error, with its success flag) and the error's \<open>Error()\<close> text are parameters.
\<close>

fun traceHandleRPC ::
  "('err \<Rightarrow> Status \<times> bool) \<Rightarrow> ('err \<Rightarrow> string) \<Rightarrow> 'err RPCStats \<Rightarrow> span_op list" where
  "traceHandleRPC FromError Error (Begin Client FailFast) =
     [AddAttributes [(''Client'', Client), (''FailFast'', FailFast)]]"
| "traceHandleRPC FromError Error (InPayload Length WireLength) =
     [AddMessageReceiveEvent 0 Length WireLength]"
| "traceHandleRPC FromError Error (OutPayload Length WireLength) =
     [AddMessageSendEvent 0 Length WireLength]"
| "traceHandleRPC FromError Error (End err) =
     (case err of
        None \<Rightarrow> []
      | Some e \<Rightarrow>
          (case FromError e of
             (s, ok) \<Rightarrow>
               if ok then [SetStatus \<lparr>Code = Code s, Message = Message s\<rparr>]
               else [SetStatus \<lparr>Code = codes_Internal, Message = Error e\<rparr>]))
     @ [EndSpan]"
| "traceHandleRPC FromError Error _ = []"

section \<open>Keeping only the first value of every key\<close>

text \<open>The metadata with every key's value list cut down to its first value.\<close>

definition first_values :: "MD \<Rightarrow> MD" where
  "first_values md = (\<lambda>k. map_option (take 1) (md k))"

section \<open>Copying into a zeroed array\<close>

lemma copy_from_right_aligned:
  assumes "length b \<le> n"
  shows "copy_from (replicate n 0) (int n - int (length b)) b =
           Inr (replicate (n - length b) 0 @ b)"
  using assms by (simp add: copy_from_def Let_def nat_diff_distrib' min_def)

lemma copy_from_too_long:
  assumes "n < length b"
  shows "copy_from (replicate n 0) (int n - int (length b)) b =
           Inl (SliceBoundsOutOfRange (int n - int (length b)))"
  using assms by (simp add: copy_from_def)

lemma trace_id_start: "8 + (8 - int (length b)) = 16 - int (length b)"
  by simp

lemma trace_id_copy:
  assumes "length b \<le> 16"
  shows "copy_from (replicate 16 0) (16 - int (length b)) b =
           Inr (replicate (16 - length b) 0 @ b)"
  using copy_from_right_aligned [of b 16] assms by simp

lemma span_id_copy:
  assumes "length b \<le> 8"
  shows "copy_from (replicate 8 0) (8 - int (length b)) b =
           Inr (replicate (8 - length b) 0 @ b)"
  using copy_from_right_aligned [of b 8] assms by simp

section \<open>The textual decoder on malformed input\<close>

text \<open>
  C1. A secondary-header value whose field count is not 4 should decode to "no usable
  parent" (ok = false), so that the server handler treats the header as absent. The
  decoder does not: on \<open>a:b:c\<close> (three fields) it skips the parsing block and falls
  through to its final \<open>return parent, true\<close>, so it reports the all-zero span
  context as a usable parent, and a non-public server handler starts its span with that
  all-zero context as the remote parent instead of starting a root span.
\<close>

theorem wrong_field_count_reports_parent:
  "spanContextFromJaeger ''a:b:c'' = Inr (zeroSpanContext, True) \<and>
   ServerHandler_traceTagRPC \<lparr>IsPublicEndpoint = False, Sampler = smp\<rparr> FromBinary
       \<lparr>incomingMD = Some [jaegerContextKey \<mapsto> [''a:b:c'']], outgoingMD = []\<rparr>
       ''/pkg.Service/Method'' =
     Inr \<lparr>started = StartSpanWithRemoteParent ''pkg.Service.Method'' zeroSpanContext
                      SpanKindServer smp,
          links = []\<rparr>"
proof -
  have d: "spanContextFromJaeger ''a:b:c'' = Inr (zeroSpanContext, True)"
    by code_simp
  have n: "span_name ''/pkg.Service/Method'' = ''pkg.Service.Method''"
    by code_simp
  show ?thesis
    by (simp add: d n ServerHandler_traceTagRPC_def FromIncomingContext_def md_values_def
        Let_def remote_span_def traceContextKey_def jaegerContextKey_def)
qed

text \<open>
  C2. No secondary-header value should be fatal to the decoder. Two values are: a
  trace-id field of 36 hex digits decodes to 18 bytes, so the start index of the copy
  into the 16-byte trace id is \<open>16 - 18 = -2\<close>; a span-id field of 18 hex digits
  decodes to 9 bytes, so the start index of the copy into the 8-byte span id is
  \<open>8 - 9 = -1\<close>. Slicing an array from a negative index panics.
\<close>

theorem oversized_hex_field_panics:
  "spanContextFromJaeger ''0123456789abcdef0123456789abcdef0123:0:0:1'' =
     Inl (SliceBoundsOutOfRange (- 2)) \<and>
   spanContextFromJaeger ''1:0123456789abcdef01:0:1'' =
     Inl (SliceBoundsOutOfRange (- 1))"
  by code_simp

section \<open>Public endpoints\<close>

text \<open>
  C3. On a public endpoint, when the first value of the primary key decodes to a parent,
  or the primary key is absent or its first value fails to decode and the first value
  of the secondary key decodes to a parent, the server span is started by \<open>StartSpan\<close>
  (no remote parent), server kind, under the handler's sampler, and it gets exactly one
  link, of kind child, carrying the decoded parent's trace id and span id.
\<close>

theorem public_endpoint_links_decoded_parent:
  assumes pub: "IsPublicEndpoint s"
    and md: "fst (FromIncomingContext c) = md"
    and dec:
      "(\<exists>v vs. md_values md traceContextKey = v # vs \<and> FromBinary v = (p, True)) \<or>
       ((md_values md traceContextKey = [] \<or>
         (\<exists>v vs q. md_values md traceContextKey = v # vs \<and> FromBinary v = (q, False))) \<and>
        (\<exists>w ws. md jaegerContextKey = Some (w # ws) \<and>
                 spanContextFromJaeger w = Inr (p, True)))"
  shows "ServerHandler_traceTagRPC s FromBinary c n =
           Inr \<lparr>started = StartSpan (span_name n) SpanKindServer (Sampler s),
                links = [\<lparr>Link_TraceID = TraceID p, Link_SpanID = SpanID p,
                          Link_Type = LinkTypeChild\<rparr>]\<rparr>"
  using dec
proof (elim disjE conjE exE)
  fix v vs
  assume "md_values md traceContextKey = v # vs" "FromBinary v = (p, True)"
  then show ?thesis
    using pub md
    by (simp add: ServerHandler_traceTagRPC_def Let_def root_span_def split: option.splits)
next
  fix w ws
  assume "md_values md traceContextKey = []" "md jaegerContextKey = Some (w # ws)"
    "spanContextFromJaeger w = Inr (p, True)"
  then show ?thesis
    using pub md
    by (simp add: ServerHandler_traceTagRPC_def Let_def root_span_def)
next
  fix w ws v vs q
  assume "md_values md traceContextKey = v # vs" "FromBinary v = (q, False)"
    "md jaegerContextKey = Some (w # ws)"
    "spanContextFromJaeger w = Inr (p, True)"
  then show ?thesis
    using pub md
    by (simp add: ServerHandler_traceTagRPC_def Let_def root_span_def)
qed

theorem public_endpoint_links_decoded_parent_witness:
  "ServerHandler_traceTagRPC \<lparr>IsPublicEndpoint = True, Sampler = ()\<rparr>
     (\<lambda>b. (zeroSpanContext, False))
     \<lparr>incomingMD = Some [jaegerContextKey \<mapsto> [''463ac35c9f6413ad:1b:0:1'']],
      outgoingMD = []\<rparr>
     ''/pkg.Service/Method'' =
   Inr \<lparr>started = StartSpan ''pkg.Service.Method'' SpanKindServer (),
        links = [\<lparr>Link_TraceID =
                    replicate 8 0 @ [0x46, 0x3a, 0xc3, 0x5c, 0x9f, 0x64, 0x13, 0xad],
                  Link_SpanID = replicate 7 0 @ [0x1b],
                  Link_Type = LinkTypeChild\<rparr>]\<rparr>"
proof -
  let ?p = "\<lparr>TraceID = replicate 8 0 @ [0x46, 0x3a, 0xc3, 0x5c, 0x9f, 0x64, 0x13, 0xad],
             SpanID = replicate 7 0 @ [0x1b], TraceOptions = 1\<rparr>"
  let ?md = "[jaegerContextKey \<mapsto> [''463ac35c9f6413ad:1b:0:1'']]"
  let ?c = "\<lparr>incomingMD = Some ?md, outgoingMD = []\<rparr>"
  let ?fb = "\<lambda>b :: string. (zeroSpanContext, False)"
  have h1: "IsPublicEndpoint \<lparr>IsPublicEndpoint = True, Sampler = ()\<rparr>"
    by simp
  have h2: "fst (FromIncomingContext ?c) = ?md"
    by (simp add: FromIncomingContext_def)
  have d: "spanContextFromJaeger ''463ac35c9f6413ad:1b:0:1'' = Inr (?p, True)"
    by code_simp
  have k: "md_values ?md traceContextKey = []"
    by (simp add: md_values_def traceContextKey_def jaegerContextKey_def)
  have h3:
    "(\<exists>v vs. md_values ?md traceContextKey = v # vs \<and> ?fb v = (?p, True)) \<or>
     ((md_values ?md traceContextKey = [] \<or>
       (\<exists>v vs q. md_values ?md traceContextKey = v # vs \<and> ?fb v = (q, False))) \<and>
      (\<exists>w ws. ?md jaegerContextKey = Some (w # ws) \<and>
               spanContextFromJaeger w = Inr (?p, True)))"
    using d k by simp
  have n: "span_name ''/pkg.Service/Method'' = ''pkg.Service.Method''"
    by code_simp
  show ?thesis
    using public_endpoint_links_decoded_parent [OF h1 h2 h3, of "''/pkg.Service/Method''"] n
    by simp
qed

section \<open>Decoding well-formed values\<close>

text \<open>
  C4. The secondary-header value \<open>463ac35c9f6413ad:0:0:1\<close> decodes successfully: the
  upper eight bytes of the trace id are zero, the lower eight are
  \<open>46 3a c3 5c 9f 64 13 ad\<close>, the span id is all zero and the sampled flag (bit 0 of
  the trace options) is set.
\<close>

theorem decode_lower_half_trace_id:
  "spanContextFromJaeger ''463ac35c9f6413ad:0:0:1'' =
     Inr (\<lparr>TraceID = replicate 8 0 @ [0x46, 0x3a, 0xc3, 0x5c, 0x9f, 0x64, 0x13, 0xad],
           SpanID = replicate 8 0,
           TraceOptions = 1\<rparr>, True)"
  by code_simp

text \<open>
  C5. Every trace-id field that decodes successfully should end up right-aligned in the
  16-byte trace id. A field of 34 hex digits decodes successfully, to 17 bytes, and is
  not placed in the trace id at all: the start index of the copy is \<open>16 - 17 = -1\<close>
  and the slice expression panics.
\<close>

theorem seventeen_byte_trace_id_not_aligned:
  "hexDecodePadded ''ff0123456789abcdef0123456789abcdef'' =
     ([0xff, 0x01, 0x23, 0x45, 0x67, 0x89, 0xab, 0xcd, 0xef,
       0x01, 0x23, 0x45, 0x67, 0x89, 0xab, 0xcd, 0xef], None) \<and>
   spanContextFromJaeger ''ff0123456789abcdef0123456789abcdef:1:0:1'' =
     Inl (SliceBoundsOutOfRange (- 1))"
  by code_simp

section \<open>The fallback chain\<close>

text \<open>
  C6. When neither key yields a trusted parent, the server handler should start a fresh
  root span. With no primary key and a secondary value whose trace-id field decodes to
  18 bytes, no key yields a trusted parent and no span is started: the textual decoder
  panics inside the handler, whatever the endpoint's policy.
\<close>

theorem fallback_root_not_reached_on_long_trace_id:
  "ServerHandler_traceTagRPC s FromBinary
     \<lparr>incomingMD =
        Some [jaegerContextKey \<mapsto> [''000000000000000000000000000000000001:0:0:1'']],
      outgoingMD = []\<rparr> n =
   Inl (SliceBoundsOutOfRange (- 2))"
proof -
  have d: "spanContextFromJaeger ''000000000000000000000000000000000001:0:0:1'' =
             Inl (SliceBoundsOutOfRange (- 2))"
    by code_simp
  show ?thesis
    by (simp add: ServerHandler_traceTagRPC_def FromIncomingContext_def md_values_def
        Let_def d traceContextKey_def jaegerContextKey_def)
qed

section \<open>Relaying the secondary header\<close>

text \<open>
  C7. When the incoming metadata holds a value under the secondary key, the unary
  interceptor calls the next handler with a context whose outgoing metadata is the old
  one followed by the pair (secondary key, that value), and the streaming interceptor
  calls the next handler with the stream wrapped around such a context. The value is
  any string: it is not decoded, and it is appended as it is.
\<close>

theorem relay_appends_exact_value:
  assumes "incomingMD c = Some md"
    and "md jaegerContextKey = Some (v # vs)"
    and "stream_Context stream = c"
  shows "JaegerTracePropagateUnaryInterceptor c req info handler =
           handler (c\<lparr>outgoingMD := outgoingMD c @ [(jaegerContextKey, v)]\<rparr>) req \<and>
         JaegerTracePropagateStreamInterceptor srv stream sinfo shandler =
           shandler srv
             \<lparr>wrapped_ServerStream = stream,
              WrappedContext = c\<lparr>outgoingMD := outgoingMD c @ [(jaegerContextKey, v)]\<rparr>\<rparr>"
  using assms
  by (simp add: JaegerTracePropagateUnaryInterceptor_def
      JaegerTracePropagateStreamInterceptor_def FromIncomingContext_def
      AppendToOutgoingContext_def WrapServerStream_def Let_def)

theorem relay_appends_exact_value_witness:
  "JaegerTracePropagateUnaryInterceptor
     \<lparr>incomingMD = Some [jaegerContextKey \<mapsto> [''not:a trace'']],
      outgoingMD = [(''k'', ''v'')]\<rparr>
     () () (\<lambda>c r. outgoingMD c) =
     [(''k'', ''v''), (jaegerContextKey, ''not:a trace'')] \<and>
   JaegerTracePropagateStreamInterceptor ()
     \<lparr>stream_Context =
        \<lparr>incomingMD = Some [jaegerContextKey \<mapsto> [''not:a trace'']],
         outgoingMD = [(''k'', ''v'')]\<rparr>,
      stream_transport = ()\<rparr>
     () (\<lambda>srv w. outgoingMD (WrappedContext w)) =
     [(''k'', ''v''), (jaegerContextKey, ''not:a trace'')]"
proof -
  let ?md = "[jaegerContextKey \<mapsto> [''not:a trace'']]"
  let ?c = "\<lparr>incomingMD = Some ?md, outgoingMD = [(''k'', ''v'')]\<rparr>"
  let ?st = "\<lparr>stream_Context = ?c, stream_transport = ()\<rparr>"
  have h1: "incomingMD ?c = Some ?md"
    by simp
  have h2: "?md jaegerContextKey = Some (''not:a trace'' # [])"
    by simp
  have h3: "stream_Context ?st = ?c"
    by simp
  show ?thesis
    using relay_appends_exact_value [OF h1 h2 h3, of "()" "()" "\<lambda>c r. outgoingMD c"
        "()" "()" "\<lambda>srv w. outgoingMD (WrappedContext w)"]
    by simp
qed

section \<open>Padding odd-length hex fields\<close>

text \<open>
  C8. For a hex string of odd length, the decode helper hex-decodes the string with
  exactly one \<open>0\<close> character put in front, so it returns the bytes and the error
  status the helper returns on that even-length string; a string of even length is
  hex-decoded as it is.
\<close>

theorem hexDecodePadded_pads_one_zero:
  "(odd (length h) \<longrightarrow>
      hexDecodePadded h = hex_DecodeString (CHR ''0'' # h) \<and>
      hexDecodePadded h = hexDecodePadded (CHR ''0'' # h)) \<and>
   (even (length h) \<longrightarrow> hexDecodePadded h = hex_DecodeString h)"
  by (auto simp add: hexDecodePadded_def odd_iff_mod_2_eq_one)

theorem hexDecodePadded_pads_one_zero_witness:
  "odd (length ''abc'') \<and>
   hexDecodePadded ''abc'' = hex_DecodeString ''0abc'' \<and>
   hexDecodePadded ''abc'' = hexDecodePadded ''0abc'' \<and>
   even (length ''0abc'') \<and>
   hexDecodePadded ''0abc'' = hex_DecodeString ''0abc''"
  using hexDecodePadded_pads_one_zero [of "''abc''"]
    hexDecodePadded_pads_one_zero [of "''0abc''"]
  by simp

section \<open>The End event\<close>

text \<open>
  C9. On an End event without an error the recorder only ends the span. On an End event
  with an error it first sets a status, then ends the span: the status carries the code
  and message extracted from the error when the extraction succeeds, and the internal
  code with the error's text otherwise.
\<close>

theorem end_event_sets_status_then_ends:
  "traceHandleRPC FromError Error (End None) = [EndSpan] \<and>
   (FromError e = (st, True) \<longrightarrow>
      traceHandleRPC FromError Error (End (Some e)) =
        [SetStatus \<lparr>Code = Code st, Message = Message st\<rparr>, EndSpan]) \<and>
   (FromError e = (st, False) \<longrightarrow>
      traceHandleRPC FromError Error (End (Some e)) =
        [SetStatus \<lparr>Code = codes_Internal, Message = Error e\<rparr>, EndSpan])"
  by simp

theorem end_event_sets_status_then_ends_witness:
  "traceHandleRPC
     (\<lambda>e. if e = ''rpc'' then (\<lparr>Code = 5, Message = ''not found''\<rparr>, True)
           else (\<lparr>Code = 2, Message = e\<rparr>, False))
     (\<lambda>e. e) (End (Some ''rpc'')) =
     [SetStatus \<lparr>Code = 5, Message = ''not found''\<rparr>, EndSpan] \<and>
   traceHandleRPC
     (\<lambda>e. if e = ''rpc'' then (\<lparr>Code = 5, Message = ''not found''\<rparr>, True)
           else (\<lparr>Code = 2, Message = e\<rparr>, False))
     (\<lambda>e. e) (End (Some ''boom'')) =
     [SetStatus \<lparr>Code = 13, Message = ''boom''\<rparr>, EndSpan]"
proof -
  let ?fe = "\<lambda>e. if e = ''rpc'' then (\<lparr>Code = 5, Message = ''not found''\<rparr>, True)
                  else (\<lparr>Code = 2, Message = e\<rparr>, False)"
  have a: "?fe ''rpc'' = (\<lparr>Code = 5, Message = ''not found''\<rparr>, True)"
    by simp
  have b: "?fe ''boom'' = (\<lparr>Code = 2, Message = ''boom''\<rparr>, False)"
    by simp
  from end_event_sets_status_then_ends
         [of ?fe "\<lambda>e. e" "''rpc''" "\<lparr>Code = 5, Message = ''not found''\<rparr>"] a
  have r1: "traceHandleRPC ?fe (\<lambda>e. e) (End (Some ''rpc'')) =
              [SetStatus \<lparr>Code = 5, Message = ''not found''\<rparr>, EndSpan]"
    by simp
  from end_event_sets_status_then_ends
         [of ?fe "\<lambda>e. e" "''boom''" "\<lparr>Code = 2, Message = ''boom''\<rparr>"] b
  have r2: "traceHandleRPC ?fe (\<lambda>e. e) (End (Some ''boom'')) =
              [SetStatus \<lparr>Code = 13, Message = ''boom''\<rparr>, EndSpan]"
    by (simp add: codes_Internal_def)
  from r1 r2 show ?thesis
    by (rule conjI)
qed

section \<open>Keys with several values\<close>

lemma take_1_nth_0: "xs \<noteq> [] \<Longrightarrow> take 1 xs ! 0 = xs ! 0"
  by (cases xs) simp_all

lemma take_1_nonempty: "(0 < length (take 1 xs)) = (0 < length xs)"
  by (cases xs) simp_all

lemma resolver_first_values:
  "ServerHandler_traceTagRPC s FromBinary (c\<lparr>incomingMD := Some (first_values md)\<rparr>) n =
   ServerHandler_traceTagRPC s FromBinary (c\<lparr>incomingMD := Some md\<rparr>) n"
  by (cases "md traceContextKey"; cases "md jaegerContextKey")
    (auto simp add: ServerHandler_traceTagRPC_def FromIncomingContext_def md_values_def
      first_values_def Let_def take_1_nth_0 take_1_nonempty
      split: option.splits prod.splits sum.splits)

lemma unary_first_values:
  "JaegerTracePropagateUnaryInterceptor (c\<lparr>incomingMD := Some (first_values md)\<rparr>) req info
       (\<lambda>c' r. outgoingMD c') =
   JaegerTracePropagateUnaryInterceptor (c\<lparr>incomingMD := Some md\<rparr>) req info
       (\<lambda>c' r. outgoingMD c')"
  by (cases "md jaegerContextKey")
    (auto simp add: JaegerTracePropagateUnaryInterceptor_def FromIncomingContext_def
      first_values_def AppendToOutgoingContext_def Let_def take_1_nth_0 take_1_nonempty)

lemma stream_first_values:
  "JaegerTracePropagateStreamInterceptor srv
       (stream\<lparr>stream_Context := c\<lparr>incomingMD := Some (first_values md)\<rparr>\<rparr>) sinfo
       (\<lambda>srv' w. outgoingMD (WrappedContext w)) =
   JaegerTracePropagateStreamInterceptor srv
       (stream\<lparr>stream_Context := c\<lparr>incomingMD := Some md\<rparr>\<rparr>) sinfo
       (\<lambda>srv' w. outgoingMD (WrappedContext w))"
  by (cases "md jaegerContextKey")
    (auto simp add: JaegerTracePropagateStreamInterceptor_def FromIncomingContext_def
      first_values_def AppendToOutgoingContext_def WrapServerStream_def Let_def
      take_1_nth_0 take_1_nonempty)

lemma resolver_primary_first:
  assumes "md traceContextKey = Some (v # vs)" and "FromBinary v = (p, True)"
  shows "ServerHandler_traceTagRPC s FromBinary (c\<lparr>incomingMD := Some md\<rparr>) n =
           (if IsPublicEndpoint s then Inr (root_span s (span_name n) p True)
            else Inr (remote_span s (span_name n) p))"
  using assms
  by (simp add: ServerHandler_traceTagRPC_def FromIncomingContext_def md_values_def Let_def
      split: option.splits)

lemma resolver_secondary_first:
  assumes "md traceContextKey = None \<or> md traceContextKey = Some [] \<or>
           (\<exists>v vs q. md traceContextKey = Some (v # vs) \<and> FromBinary v = (q, False))"
    and "md jaegerContextKey = Some (w # ws)"
  shows "ServerHandler_traceTagRPC s FromBinary (c\<lparr>incomingMD := Some md\<rparr>) n =
           (case spanContextFromJaeger w of
              Inl e \<Rightarrow> Inl e
            | Inr (p, ok) \<Rightarrow>
                if ok \<and> \<not> IsPublicEndpoint s then Inr (remote_span s (span_name n) p)
                else Inr (root_span s (span_name n) p ok))"
  using assms
  by (auto simp add: ServerHandler_traceTagRPC_def FromIncomingContext_def md_values_def Let_def
      split: option.splits sum.splits prod.splits)

lemma relays_first:
  assumes "md jaegerContextKey = Some (w # ws)"
  shows "JaegerTracePropagateUnaryInterceptor (c\<lparr>incomingMD := Some md\<rparr>) req info handler =
           handler (c\<lparr>incomingMD := Some md,
                      outgoingMD := outgoingMD c @ [(jaegerContextKey, w)]\<rparr>) req"
    and "JaegerTracePropagateStreamInterceptor srv
           (stream\<lparr>stream_Context := c\<lparr>incomingMD := Some md\<rparr>\<rparr>) sinfo shandler =
         shandler srv
           \<lparr>wrapped_ServerStream = stream\<lparr>stream_Context := c\<lparr>incomingMD := Some md\<rparr>\<rparr>,
            WrappedContext = c\<lparr>incomingMD := Some md,
                               outgoingMD := outgoingMD c @ [(jaegerContextKey, w)]\<rparr>\<rparr>"
  using assms
  by (simp_all add: JaegerTracePropagateUnaryInterceptor_def
      JaegerTracePropagateStreamInterceptor_def FromIncomingContext_def
      AppendToOutgoingContext_def WrapServerStream_def Let_def)


text \<open>
  C10. Only the first value of a key is used. When the primary key holds several values
  and the first decodes to a parent, the server handler's result is built from that
  parent; when the primary key is absent, empty, or its first value fails to decode and
  the secondary key holds several values, the result is built from the textual decode
  of the first of them; both relay interceptors hand the next handler the outgoing
  metadata followed by the pair (secondary key, first value). Cutting every value list
  of the incoming metadata down to its first value changes neither the handler's result
  (span, links or panic) nor the outgoing metadata the relays produce: values after the
  first have no influence.
\<close>

theorem only_first_value_used:
  "(md traceContextKey = Some (v # vs) \<and> FromBinary v = (p, True) \<longrightarrow>
      ServerHandler_traceTagRPC s FromBinary (c\<lparr>incomingMD := Some md\<rparr>) n =
        (if IsPublicEndpoint s then Inr (root_span s (span_name n) p True)
         else Inr (remote_span s (span_name n) p))) \<and>
   ((md traceContextKey = None \<or> md traceContextKey = Some [] \<or>
       (\<exists>u us q. md traceContextKey = Some (u # us) \<and> FromBinary u = (q, False))) \<and>
     md jaegerContextKey = Some (w # ws) \<longrightarrow>
      ServerHandler_traceTagRPC s FromBinary (c\<lparr>incomingMD := Some md\<rparr>) n =
        (case spanContextFromJaeger w of
           Inl e \<Rightarrow> Inl e
         | Inr (q, ok) \<Rightarrow>
             if ok \<and> \<not> IsPublicEndpoint s then Inr (remote_span s (span_name n) q)
             else Inr (root_span s (span_name n) q ok))) \<and>
   (md jaegerContextKey = Some (w # ws) \<longrightarrow>
      JaegerTracePropagateUnaryInterceptor (c\<lparr>incomingMD := Some md\<rparr>) req info handler =
        handler (c\<lparr>incomingMD := Some md,
                   outgoingMD := outgoingMD c @ [(jaegerContextKey, w)]\<rparr>) req \<and>
      JaegerTracePropagateStreamInterceptor srv
          (stream\<lparr>stream_Context := c\<lparr>incomingMD := Some md\<rparr>\<rparr>) sinfo shandler =
        shandler srv
          \<lparr>wrapped_ServerStream = stream\<lparr>stream_Context := c\<lparr>incomingMD := Some md\<rparr>\<rparr>,
           WrappedContext = c\<lparr>incomingMD := Some md,
                              outgoingMD := outgoingMD c @ [(jaegerContextKey, w)]\<rparr>\<rparr>) \<and>
   ServerHandler_traceTagRPC s FromBinary (c\<lparr>incomingMD := Some md\<rparr>) n =
     ServerHandler_traceTagRPC s FromBinary (c\<lparr>incomingMD := Some (first_values md)\<rparr>) n \<and>
   JaegerTracePropagateUnaryInterceptor (c\<lparr>incomingMD := Some md\<rparr>) req info
       (\<lambda>c' r. outgoingMD c') =
     JaegerTracePropagateUnaryInterceptor (c\<lparr>incomingMD := Some (first_values md)\<rparr>) req info
       (\<lambda>c' r. outgoingMD c') \<and>
   JaegerTracePropagateStreamInterceptor srv
       (stream\<lparr>stream_Context := c\<lparr>incomingMD := Some md\<rparr>\<rparr>) sinfo
       (\<lambda>srv' x. outgoingMD (WrappedContext x)) =
     JaegerTracePropagateStreamInterceptor srv
       (stream\<lparr>stream_Context := c\<lparr>incomingMD := Some (first_values md)\<rparr>\<rparr>) sinfo
       (\<lambda>srv' x. outgoingMD (WrappedContext x))"
proof (intro conjI impI)
  assume "md traceContextKey = Some (v # vs) \<and> FromBinary v = (p, True)"
  then show "ServerHandler_traceTagRPC s FromBinary (c\<lparr>incomingMD := Some md\<rparr>) n =
        (if IsPublicEndpoint s then Inr (root_span s (span_name n) p True)
         else Inr (remote_span s (span_name n) p))"
    using resolver_primary_first [of md v vs FromBinary p s c n] by simp
next
  assume a: "(md traceContextKey = None \<or> md traceContextKey = Some [] \<or>
       (\<exists>u us q. md traceContextKey = Some (u # us) \<and> FromBinary u = (q, False))) \<and>
     md jaegerContextKey = Some (w # ws)"
  show "ServerHandler_traceTagRPC s FromBinary (c\<lparr>incomingMD := Some md\<rparr>) n =
        (case spanContextFromJaeger w of
           Inl e \<Rightarrow> Inl e
         | Inr (q, ok) \<Rightarrow>
             if ok \<and> \<not> IsPublicEndpoint s then Inr (remote_span s (span_name n) q)
             else Inr (root_span s (span_name n) q ok))"
    by (rule resolver_secondary_first [OF conjunct1 [OF a] conjunct2 [OF a]])
next
  assume "md jaegerContextKey = Some (w # ws)"
  then show "JaegerTracePropagateUnaryInterceptor (c\<lparr>incomingMD := Some md\<rparr>) req info handler =
        handler (c\<lparr>incomingMD := Some md,
                   outgoingMD := outgoingMD c @ [(jaegerContextKey, w)]\<rparr>) req"
    by (rule relays_first(1))
next
  assume "md jaegerContextKey = Some (w # ws)"
  then show "JaegerTracePropagateStreamInterceptor srv
          (stream\<lparr>stream_Context := c\<lparr>incomingMD := Some md\<rparr>\<rparr>) sinfo shandler =
        shandler srv
          \<lparr>wrapped_ServerStream = stream\<lparr>stream_Context := c\<lparr>incomingMD := Some md\<rparr>\<rparr>,
           WrappedContext = c\<lparr>incomingMD := Some md,
                              outgoingMD := outgoingMD c @ [(jaegerContextKey, w)]\<rparr>\<rparr>"
    by (rule relays_first(2))
next
  show "ServerHandler_traceTagRPC s FromBinary (c\<lparr>incomingMD := Some md\<rparr>) n =
     ServerHandler_traceTagRPC s FromBinary (c\<lparr>incomingMD := Some (first_values md)\<rparr>) n"
    by (rule resolver_first_values [symmetric])
next
  show "JaegerTracePropagateUnaryInterceptor (c\<lparr>incomingMD := Some md\<rparr>) req info
       (\<lambda>c' r. outgoingMD c') =
     JaegerTracePropagateUnaryInterceptor (c\<lparr>incomingMD := Some (first_values md)\<rparr>) req info
       (\<lambda>c' r. outgoingMD c')"
    by (rule unary_first_values [symmetric])
next
  show "JaegerTracePropagateStreamInterceptor srv
       (stream\<lparr>stream_Context := c\<lparr>incomingMD := Some md\<rparr>\<rparr>) sinfo
       (\<lambda>srv' x. outgoingMD (WrappedContext x)) =
     JaegerTracePropagateStreamInterceptor srv
       (stream\<lparr>stream_Context := c\<lparr>incomingMD := Some (first_values md)\<rparr>\<rparr>) sinfo
       (\<lambda>srv' x. outgoingMD (WrappedContext x))"
    by (rule stream_first_values [symmetric])
qed

theorem only_first_value_used_witness:
  "ServerHandler_traceTagRPC \<lparr>IsPublicEndpoint = False, Sampler = ()\<rparr>
     (\<lambda>b. if b = ''P'' then (zeroSpanContext\<lparr>TraceOptions := 1\<rparr>, True)
           else (zeroSpanContext, False))
     \<lparr>incomingMD = Some [traceContextKey \<mapsto> [''P'', ''junk'']], outgoingMD = []\<rparr>
     ''/svc/m'' =
     Inr (remote_span \<lparr>IsPublicEndpoint = False, Sampler = ()\<rparr> ''svc.m''
            (zeroSpanContext\<lparr>TraceOptions := 1\<rparr>)) \<and>
   ServerHandler_traceTagRPC \<lparr>IsPublicEndpoint = False, Sampler = ()\<rparr>
     (\<lambda>b. if b = ''P'' then (zeroSpanContext\<lparr>TraceOptions := 1\<rparr>, True)
           else (zeroSpanContext, False))
     \<lparr>incomingMD = Some [traceContextKey \<mapsto> [''junk'', ''P''],
                          jaegerContextKey \<mapsto> [''463ac35c9f6413ad:1b:0:1'', ''a:b:c'']],
      outgoingMD = []\<rparr>
     ''/svc/m'' =
     Inr (remote_span \<lparr>IsPublicEndpoint = False, Sampler = ()\<rparr> ''svc.m''
            \<lparr>TraceID = replicate 8 0 @ [0x46, 0x3a, 0xc3, 0x5c, 0x9f, 0x64, 0x13, 0xad],
             SpanID = replicate 7 0 @ [0x1b], TraceOptions = 1\<rparr>) \<and>
   JaegerTracePropagateUnaryInterceptor
     \<lparr>incomingMD = Some [traceContextKey \<mapsto> [''junk'', ''P''],
                          jaegerContextKey \<mapsto> [''463ac35c9f6413ad:1b:0:1'', ''a:b:c'']],
      outgoingMD = []\<rparr>
     () () (\<lambda>c r. outgoingMD c) =
     [(jaegerContextKey, ''463ac35c9f6413ad:1b:0:1'')] \<and>
   JaegerTracePropagateStreamInterceptor ()
     \<lparr>stream_Context =
        \<lparr>incomingMD = Some [traceContextKey \<mapsto> [''junk'', ''P''],
                             jaegerContextKey \<mapsto> [''463ac35c9f6413ad:1b:0:1'', ''a:b:c'']],
         outgoingMD = []\<rparr>,
      stream_transport = ()\<rparr>
     () (\<lambda>srv x. outgoingMD (WrappedContext x)) =
     [(jaegerContextKey, ''463ac35c9f6413ad:1b:0:1'')]"
proof -
  let ?s = "\<lparr>IsPublicEndpoint = False, Sampler = ()\<rparr>"
  let ?fb = "\<lambda>b. if b = ''P'' then (zeroSpanContext\<lparr>TraceOptions := 1\<rparr>, True)
                  else (zeroSpanContext, False)"
  let ?w = "''463ac35c9f6413ad:1b:0:1''"
  let ?q = "\<lparr>TraceID = replicate 8 0 @ [0x46, 0x3a, 0xc3, 0x5c, 0x9f, 0x64, 0x13, 0xad],
             SpanID = replicate 7 0 @ [0x1b], TraceOptions = 1\<rparr>"
  let ?md1 = "[traceContextKey \<mapsto> [''P'', ''junk'']]"
  let ?md2 = "[traceContextKey \<mapsto> [''junk'', ''P''], jaegerContextKey \<mapsto> [?w, ''a:b:c'']]"
  let ?c0 = "\<lparr>incomingMD = None, outgoingMD = []\<rparr>"
  let ?st = "\<lparr>stream_Context = ?c0, stream_transport = ()\<rparr>"
  have keys: "traceContextKey \<noteq> jaegerContextKey"
    by (simp add: traceContextKey_def jaegerContextKey_def)
  have n: "span_name ''/svc/m'' = ''svc.m''"
    by code_simp
  have d: "spanContextFromJaeger ?w = Inr (?q, True)"
    by code_simp
  have p1: "?md1 traceContextKey = Some (''P'' # [''junk'']) \<and>
            ?fb ''P'' = (zeroSpanContext\<lparr>TraceOptions := 1\<rparr>, True)"
    by simp
  have p2: "(?md2 traceContextKey = None \<or> ?md2 traceContextKey = Some [] \<or>
       (\<exists>u us q. ?md2 traceContextKey = Some (u # us) \<and> ?fb u = (q, False))) \<and>
     ?md2 jaegerContextKey = Some (?w # [''a:b:c''])"
    using keys by simp
  have c1: "?c0\<lparr>incomingMD := Some ?md1\<rparr> = \<lparr>incomingMD = Some ?md1, outgoingMD = []\<rparr>"
    by simp
  have c2: "?c0\<lparr>incomingMD := Some ?md2\<rparr> = \<lparr>incomingMD = Some ?md2, outgoingMD = []\<rparr>"
    by simp
  have s2: "?st\<lparr>stream_Context := ?c0\<lparr>incomingMD := Some ?md2\<rparr>\<rparr> =
            \<lparr>stream_Context = \<lparr>incomingMD = Some ?md2, outgoingMD = []\<rparr>, stream_transport = ()\<rparr>"
    by simp
  note t1 = only_first_value_used
      [where md = ?md1 and v = "''P''" and vs = "[''junk'']" and FromBinary = ?fb
         and p = "zeroSpanContext\<lparr>TraceOptions := 1\<rparr>" and s = ?s and c = ?c0
         and n = "''/svc/m''", THEN conjunct1, rule_format, OF p1]
  note t2 = only_first_value_used
      [where md = ?md2 and FromBinary = ?fb and w = ?w and ws = "[''a:b:c'']" and s = ?s
         and c = ?c0 and n = "''/svc/m''" and stream = ?st and srv = "()" and sinfo = "()"
         and req = "()" and info = "()" and handler = "\<lambda>c r. outgoingMD c"
         and shandler = "\<lambda>srv x. outgoingMD (WrappedContext x)"]
  have r1: "ServerHandler_traceTagRPC ?s ?fb \<lparr>incomingMD = Some ?md1, outgoingMD = []\<rparr> ''/svc/m'' =
     Inr (remote_span ?s ''svc.m'' (zeroSpanContext\<lparr>TraceOptions := 1\<rparr>))"
    using t1 n c1 by simp
  have r2: "ServerHandler_traceTagRPC ?s ?fb \<lparr>incomingMD = Some ?md2, outgoingMD = []\<rparr> ''/svc/m'' =
     Inr (remote_span ?s ''svc.m'' ?q)"
    using t2 [THEN conjunct2, THEN conjunct1, rule_format, OF p2] n d c2 by simp
  have j: "?md2 jaegerContextKey = Some (?w # [''a:b:c''])"
    by simp
  have r3: "JaegerTracePropagateUnaryInterceptor \<lparr>incomingMD = Some ?md2, outgoingMD = []\<rparr>
      () () (\<lambda>c r. outgoingMD c) = [(jaegerContextKey, ?w)]"
    using t2 [THEN conjunct2, THEN conjunct2, THEN conjunct1, rule_format, OF j, THEN conjunct1] c2
    by simp
  have r4: "JaegerTracePropagateStreamInterceptor ()
      \<lparr>stream_Context = \<lparr>incomingMD = Some ?md2, outgoingMD = []\<rparr>, stream_transport = ()\<rparr>
      () (\<lambda>srv x. outgoingMD (WrappedContext x)) = [(jaegerContextKey, ?w)]"
    using t2 [THEN conjunct2, THEN conjunct2, THEN conjunct1, rule_format, OF j, THEN conjunct2] s2
    by simp
  show ?thesis
    using r1 r2 r3 r4 by (intro conjI)
qed

section \<open>Further properties of the decoder and the fallback chain\<close>

text \<open>
  X1. For every secondary-header value whose field count is not 4, the textual decoder
  returns the all-zero span context with ok = true.
\<close>

theorem field_count_not_four_returns_ok:
  assumes "length (strings_Split jv CHR '':'') \<noteq> 4"
  shows "spanContextFromJaeger jv = Inr (zeroSpanContext, True)"
  using assms by (simp add: spanContextFromJaeger_def Let_def)

theorem field_count_not_four_returns_ok_witness:
  "length (strings_Split ''1:2:3:4:5'' CHR '':'') \<noteq> 4 \<and>
   spanContextFromJaeger ''1:2:3:4:5'' = Inr (zeroSpanContext, True)"
proof -
  have h: "length (strings_Split ''1:2:3:4:5'' CHR '':'') \<noteq> 4"
    by simp
  from h field_count_not_four_returns_ok [OF h] show ?thesis
    by (rule conjI)
qed

text \<open>
  X2. For a value of four fields whose trace-id field decodes to at most 16 bytes and
  whose span-id field decodes to at most 8 bytes, the decoder returns ok = true with
  the trace-id bytes right-aligned in the 16-byte trace id, the span-id bytes
  right-aligned in the 8-byte span id, zeros in front, and the trace options 1 when the
  fourth field is the string \<open>1\<close> and 0 otherwise.
\<close>

theorem decoded_fields_right_aligned:
  assumes "strings_Split jv CHR '':'' = [f0, f1, f2, f3]"
    and "hexDecodePadded f0 = (b, None)" and "length b \<le> 16"
    and "hexDecodePadded f1 = (b1, None)" and "length b1 \<le> 8"
  shows "spanContextFromJaeger jv =
           Inr (\<lparr>TraceID = replicate (16 - length b) 0 @ b,
                 SpanID = replicate (8 - length b1) 0 @ b1,
                 TraceOptions = (if f3 = ''1'' then 1 else 0)\<rparr>, True)"
  using assms(1,2,4) trace_id_copy [OF assms(3)] span_id_copy [OF assms(5)]
  by (simp add: spanContextFromJaeger_def Let_def zeroSpanContext_def trace_id_start)

theorem decoded_fields_right_aligned_witness:
  "spanContextFromJaeger ''1234567890abcdef1:AbC:7:1'' =
     Inr (\<lparr>TraceID = replicate 7 0 @ [0x01, 0x23, 0x45, 0x67, 0x89, 0x0a, 0xbc, 0xde, 0xf1],
           SpanID = replicate 6 0 @ [0x0a, 0xbc],
           TraceOptions = 1\<rparr>, True)"
proof -
  have h1: "strings_Split ''1234567890abcdef1:AbC:7:1'' CHR '':'' =
              [''1234567890abcdef1'', ''AbC'', ''7'', ''1'']"
    by simp
  have h2: "hexDecodePadded ''1234567890abcdef1'' =
              ([0x01, 0x23, 0x45, 0x67, 0x89, 0x0a, 0xbc, 0xde, 0xf1], None)"
    by code_simp
  have h3: "length [0x01, 0x23, 0x45, 0x67, 0x89, 0x0a, 0xbc, 0xde, 0xf1 :: byte] \<le> 16"
    by simp
  have h4: "hexDecodePadded ''AbC'' = ([0x0a, 0xbc], None)"
    by code_simp
  have h5: "length [0x0a, 0xbc :: byte] \<le> 8"
    by simp
  show ?thesis
    using decoded_fields_right_aligned [OF h1 h2 h3 h4 h5] by simp
qed

text \<open>
  X3. For a value of four fields whose trace-id field decodes to more than 16 bytes, the
  decoder panics on the slice of the trace id.
\<close>

theorem long_trace_id_field_panics:
  assumes "strings_Split jv CHR '':'' = [f0, f1, f2, f3]"
    and "hexDecodePadded f0 = (b, None)" and "16 < length b"
  shows "spanContextFromJaeger jv = Inl (SliceBoundsOutOfRange (16 - int (length b)))"
  using assms copy_from_too_long [of 16 b]
  by (simp add: spanContextFromJaeger_def Let_def zeroSpanContext_def)

theorem long_trace_id_field_panics_witness:
  "spanContextFromJaeger ''00000000000000000000000000000000aa:b:c:d'' =
     Inl (SliceBoundsOutOfRange (- 1))"
proof -
  let ?b = "replicate 16 0 @ [0xaa :: byte]"
  have h1: "strings_Split ''00000000000000000000000000000000aa:b:c:d'' CHR '':'' =
              [''00000000000000000000000000000000aa'', ''b'', ''c'', ''d'']"
    by simp
  have h2: "hexDecodePadded ''00000000000000000000000000000000aa'' = (?b, None)"
    by code_simp
  have h3: "16 < length ?b"
    by simp
  show ?thesis
    using long_trace_id_field_panics [OF h1 h2 h3] by simp
qed

text \<open>
  X4. When the first value of the primary key decodes to a parent, the server handler's
  result is fixed by that parent and the policy alone, whatever the secondary key holds:
  on a non-public endpoint the span is started with the primary parent as its remote
  parent; on a public endpoint a root span is started and linked to the primary parent.
\<close>

theorem primary_parent_decides:
  assumes "md_values (fst (FromIncomingContext c)) traceContextKey = v # vs"
    and "FromBinary v = (p, True)"
  shows "ServerHandler_traceTagRPC s FromBinary c n =
           (if IsPublicEndpoint s then Inr (root_span s (span_name n) p True)
            else Inr (remote_span s (span_name n) p))"
  using assms
  by (simp add: ServerHandler_traceTagRPC_def Let_def split: option.splits)

theorem primary_parent_decides_witness:
  "ServerHandler_traceTagRPC \<lparr>IsPublicEndpoint = False, Sampler = ()\<rparr>
     (\<lambda>b. if b = ''P'' then (zeroSpanContext\<lparr>TraceOptions := 1\<rparr>, True)
           else (zeroSpanContext, False))
     \<lparr>incomingMD =
        Some [traceContextKey \<mapsto> [''P''],
              jaegerContextKey \<mapsto> [''000000000000000000000000000000000001:0:0:1'']],
      outgoingMD = []\<rparr>
     ''svc/m'' =
   Inr \<lparr>started = StartSpanWithRemoteParent ''svc.m'' (zeroSpanContext\<lparr>TraceOptions := 1\<rparr>)
                    SpanKindServer (),
        links = []\<rparr>"
proof -
  let ?fb = "\<lambda>b. if b = ''P'' then (zeroSpanContext\<lparr>TraceOptions := 1\<rparr>, True)
                  else (zeroSpanContext, False)"
  let ?c = "\<lparr>incomingMD =
        Some [traceContextKey \<mapsto> [''P''],
              jaegerContextKey \<mapsto> [''000000000000000000000000000000000001:0:0:1'']],
      outgoingMD = []\<rparr>"
  have h1: "md_values (fst (FromIncomingContext ?c)) traceContextKey = ''P'' # []"
    by (simp add: FromIncomingContext_def md_values_def traceContextKey_def
        jaegerContextKey_def)
  have h2: "?fb ''P'' = (zeroSpanContext\<lparr>TraceOptions := 1\<rparr>, True)"
    by simp
  have n: "span_name ''svc/m'' = ''svc.m''"
    by code_simp
  show ?thesis
    using primary_parent_decides
        [where FromBinary = ?fb and c = ?c and v = "''P''" and vs = "[]"
           and p = "zeroSpanContext\<lparr>TraceOptions := 1\<rparr>"
           and s = "\<lparr>IsPublicEndpoint = False, Sampler = ()\<rparr>" and n = "''svc/m''",
         OF h1 h2] n
    by (simp add: remote_span_def)
qed

text \<open>
  X5. When the primary key is absent or its first value fails to decode, and the
  secondary key is absent, empty, or its first value decodes (the decoder returns) to a
  context that is not ok or the endpoint is public, the server handler starts a root
  span, server kind, under the handler's sampler.
\<close>

theorem untrusted_falls_back_to_root:
  assumes md: "fst (FromIncomingContext c) = md"
    and prim: "md_values md traceContextKey = [] \<or>
       (\<exists>v vs q. md_values md traceContextKey = v # vs \<and> FromBinary v = (q, False))"
    and sec: "md_values md jaegerContextKey = [] \<or>
       (\<exists>w ws q ok. md_values md jaegerContextKey = w # ws \<and>
          spanContextFromJaeger w = Inr (q, ok) \<and> (ok \<longrightarrow> IsPublicEndpoint s))"
  shows "\<exists>ls. ServerHandler_traceTagRPC s FromBinary c n =
           Inr \<lparr>started = StartSpan (span_name n) SpanKindServer (Sampler s), links = ls\<rparr>"
  using prim sec md
  by (auto simp add: ServerHandler_traceTagRPC_def Let_def root_span_def md_values_def
      split: option.splits)

theorem untrusted_falls_back_to_root_witness:
  "\<exists>ls. ServerHandler_traceTagRPC \<lparr>IsPublicEndpoint = False, Sampler = ()\<rparr>
     (\<lambda>b. (zeroSpanContext, False))
     \<lparr>incomingMD = Some [traceContextKey \<mapsto> [''junk''], jaegerContextKey \<mapsto> [''zz:0:0:1'']],
      outgoingMD = []\<rparr>
     ''/svc/m'' =
   Inr \<lparr>started = StartSpan (span_name ''/svc/m'') SpanKindServer (), links = ls\<rparr>"
proof -
  let ?md = "[traceContextKey \<mapsto> [''junk''], jaegerContextKey \<mapsto> [''zz:0:0:1'']]"
  let ?c = "\<lparr>incomingMD = Some ?md, outgoingMD = []\<rparr>"
  let ?fb = "\<lambda>b :: string. (zeroSpanContext, False)"
  let ?s = "\<lparr>IsPublicEndpoint = False, Sampler = ()\<rparr>"
  have h1: "fst (FromIncomingContext ?c) = ?md"
    by (simp add: FromIncomingContext_def)
  have p: "md_values ?md traceContextKey = ''junk'' # []"
    by (simp add: md_values_def traceContextKey_def jaegerContextKey_def)
  have h2: "md_values ?md traceContextKey = [] \<or>
       (\<exists>v vs q. md_values ?md traceContextKey = v # vs \<and> ?fb v = (q, False))"
    using p by simp
  have d: "spanContextFromJaeger ''zz:0:0:1'' = Inr (zeroSpanContext, False)"
    by code_simp
  have j: "md_values ?md jaegerContextKey = ''zz:0:0:1'' # []"
    by (simp add: md_values_def)
  have h3: "md_values ?md jaegerContextKey = [] \<or>
       (\<exists>w ws q ok. md_values ?md jaegerContextKey = w # ws \<and>
          spanContextFromJaeger w = Inr (q, ok) \<and> (ok \<longrightarrow> IsPublicEndpoint ?s))"
    using d j by auto
  from untrusted_falls_back_to_root [OF h1 h2 h3, of "''/svc/m''"]
  show ?thesis
    by simp
qed

end
